theory Spec2Isabelle
  imports
    Main
    "HOL-Library.Word"
    "HOL-Library.Char_ord"
    "HOL-Library.List_Lexorder"
    "HOL-Library.Product_Lexorder"
begin

section \<open>Values, strings and rows\<close>

text \<open>
  A cell of a dataframe or of a database row. \<open>VNull\<close> stands for Python's \<open>None\<close>,
  pandas' NaN/NA and SQL NULL, which the code treats alike (\<open>pd.isna\<close>,
  \<open>_row_to_json\<close>). Floating-point cells are outside the model.
\<close>

datatype val = VNull | VInt int | VStr string

definition digit_char :: "nat \<Rightarrow> char" where
  "digit_char d = ''0123456789'' ! (d mod 10)"

function str_nat :: "nat \<Rightarrow> string" where
  "str_nat n = (if n < 10 then [digit_char n] else str_nat (n div 10) @ [digit_char (n mod 10)])"
  by pat_completeness auto
termination
  by (relation "measure (\<lambda>n. n)") auto

declare str_nat.simps [simp del]

definition str_int :: "int \<Rightarrow> string" where
  "str_int i = (if i < 0 then CHR ''-'' # str_nat (nat (- i)) else str_nat (nat i))"

text \<open>Python's \<open>str(v)\<close>.\<close>

fun py_str :: "val \<Rightarrow> string" where
  "py_str VNull = ''None''"
| "py_str (VInt i) = str_int i"
| "py_str (VStr s) = s"

text \<open>
  A string is a list of code points below 256 (Latin-1). \<open>str.strip()\<close> removes the
  characters for which \<open>str.isspace()\<close> holds; in that range these are tab, LF, VT, FF, CR,
  FS, GS, RS, US, the space, NEL (U+0085) and the no-break space (U+00A0).
\<close>

definition is_space :: "char \<Rightarrow> bool" where
  "is_space c =
     (let n = (of_char c :: nat)
      in (9 \<le> n \<and> n \<le> 13) \<or> (28 \<le> n \<and> n \<le> 32) \<or> n = 133 \<or> n = 160)"

definition strip :: "string \<Rightarrow> string" where
  "strip s = rev (dropWhile is_space (rev (dropWhile is_space s)))"

text \<open>
  \<open>str.lower()\<close> and \<open>str.upper()\<close> on that range. The upper-case forms of U+00B5, U+00DF
  and U+00FF lie outside it (none of them is an ASCII letter); these three are left as they are.
\<close>

definition lower_char :: "char \<Rightarrow> char" where
  "lower_char c =
     (let n = (of_char c :: nat)
      in if (65 \<le> n \<and> n \<le> 90) \<or> (192 \<le> n \<and> n \<le> 214) \<or> (216 \<le> n \<and> n \<le> 222)
         then char_of (n + 32) else c)"

definition upper_char :: "char \<Rightarrow> char" where
  "upper_char c =
     (let n = (of_char c :: nat)
      in if (97 \<le> n \<and> n \<le> 122) \<or> (224 \<le> n \<and> n \<le> 246) \<or> (248 \<le> n \<and> n \<le> 254)
         then char_of (n - 32) else c)"

definition lower :: "string \<Rightarrow> string" where
  "lower s = map lower_char s"

definition upper :: "string \<Rightarrow> string" where
  "upper s = map upper_char s"

text \<open>\<open>sep.join(xs)\<close>.\<close>

fun join :: "string \<Rightarrow> string list \<Rightarrow> string" where
  "join sep [] = []"
| "join sep [x] = x"
| "join sep (x # y # ys) = x @ sep @ join sep (y # ys)"

text \<open>A row is a dictionary from column names to cells; \<open>d.get(c)\<close> gives None for a missing key.\<close>

type_synonym row = "string \<rightharpoonup> val"

definition get :: "row \<Rightarrow> string \<Rightarrow> val" where
  "get r c = (case r c of None \<Rightarrow> VNull | Some v \<Rightarrow> v)"

record dataframe =
  df_columns :: "string list"
  df_rows :: "row list"

datatype error =
    KeyError string
  | ValueError
  | SqlError
  | RuntimeError string

section \<open>The store\<close>

text \<open>
  The relational store as the code sees it. A user table has its column names, the type of
  its primary-key column and its rows; a stored row is addressed by the text of its key
  cell, which is how \<open>existing_map\<close> is keyed (\<open>str(r[pk_col])\<close>). The ledger tables are
  lists in insertion order; a table that does not exist is \<open>None\<close>.

  PostgreSQL compares a statement parameter with the key column in the column's type:
  an integer column takes a Python int as it is and a string through the integer input
  routine (optional white space, an optional sign, decimal digits; anything else is an
  error); a text column takes a string as it is, and comparing it with a Python int is an
  error. NULL is equal to nothing.
\<close>

datatype coltype = TInteger | TText

record tbl =
  tcols :: "string list"
  tkey_type :: coltype
  trows :: "string \<rightharpoonup> row"

definition digit_of :: "char \<Rightarrow> nat option" where
  "digit_of c = (let n = (of_char c :: nat) in if 48 \<le> n \<and> n \<le> 57 then Some (n - 48) else None)"

fun parse_digits :: "string \<Rightarrow> nat \<Rightarrow> nat option" where
  "parse_digits [] acc = Some acc"
| "parse_digits (c # cs) acc =
     (case digit_of c of None \<Rightarrow> None | Some d \<Rightarrow> parse_digits cs (10 * acc + d))"

definition parse_int :: "string \<Rightarrow> int option" where
  "parse_int s =
     (case s of
        [] \<Rightarrow> None
      | c # cs \<Rightarrow>
          if c = CHR ''-'' then (if cs = [] then None else map_option (\<lambda>n. - int n) (parse_digits cs 0))
          else if c = CHR ''+'' then (if cs = [] then None else map_option int (parse_digits cs 0))
          else map_option int (parse_digits s 0))"

definition sql_space :: "char \<Rightarrow> bool" where
  "sql_space c = (let n = (of_char c :: nat) in (9 \<le> n \<and> n \<le> 13) \<or> n = 32)"

definition sql_trim :: "string \<Rightarrow> string" where
  "sql_trim s = rev (dropWhile sql_space (rev (dropWhile sql_space s)))"

text \<open>A statement parameter as a value of the key column's type.\<close>

fun sql_cast :: "coltype \<Rightarrow> val \<Rightarrow> error + val" where
  "sql_cast ty VNull = Inr VNull"
| "sql_cast TInteger (VInt n) = Inr (VInt n)"
| "sql_cast TInteger (VStr s) =
     (case parse_int (sql_trim s) of None \<Rightarrow> Inl SqlError | Some n \<Rightarrow> Inr (VInt n))"
| "sql_cast TText (VStr s) = Inr (VStr s)"
| "sql_cast TText (VInt n) = Inl SqlError"

fun sql_cast_all :: "coltype \<Rightarrow> val list \<Rightarrow> error + val list" where
  "sql_cast_all ty [] = Inr []"
| "sql_cast_all ty (v # vs) =
     (case sql_cast ty v of
        Inl e \<Rightarrow> Inl e
      | Inr k \<Rightarrow> (case sql_cast_all ty vs of Inl e \<Rightarrow> Inl e | Inr ks \<Rightarrow> Inr (k # ks)))"

text \<open>The stored row with a given key value, if any.\<close>

definition lookup_key :: "tbl \<Rightarrow> val \<Rightarrow> row option" where
  "lookup_key t k = (if k = VNull then None else trows t (py_str k))"

record row_change =
  rc_change_event_id :: string
  rc_table_name :: string
  rc_pk :: string
  rc_op :: string
  rc_changed_columns :: "string list"
  rc_db_before :: "row option"
  rc_db_after :: row
  rc_applied :: bool
  rc_conflict :: bool
  rc_conflict_reason :: "string option"

record change_event =
  ce_id :: string
  ce_actor :: string
  ce_source_name :: string
  ce_file_name :: string
  ce_status :: string
  ce_notes :: "string option"

record state_image =
  state_image_id :: string
  si_change_event_id :: string
  parent_state_image_id :: "string option"
  si_notes :: "string option"

record db =
  tables :: "string \<rightharpoonup> tbl"
  etl_change_events :: "change_event list option"
  etl_row_changes :: "row_change list option"
  etl_state_images :: "state_image list option"
  etl_state_pointer :: "string option option"
  etl_state_head :: "string option option"
  uuid_source :: "nat \<Rightarrow> string"
  uuid_count :: nat

section \<open>audit.py\<close>

text \<open>
  \<open>log_row_change\<close> appends one row to \<open>etl_row_changes\<close>; the INSERT raises when the table
  does not exist. The JSON round trip of the before- and after-images is the identity on
  null, integer and string cells.
\<close>

definition log_row_change :: "db \<Rightarrow> row_change \<Rightarrow> error option \<times> db" where
  "log_row_change d rc =
     (case etl_row_changes d of
        None \<Rightarrow> (Some SqlError, d)
      | Some l \<Rightarrow> (None, d\<lparr>etl_row_changes := Some (l @ [rc])\<rparr>))"

section \<open>merge.py\<close>

record MergeStats =
  inserted :: nat
  updated :: nat
  unchanged :: nat
  conflicted :: nat
  rejected :: nat

text \<open>\<open>_row_to_json\<close>: the dictionary of a dataframe row, one key per dataframe column.\<close>

definition row_to_json :: "string list \<Rightarrow> row \<Rightarrow> row" where
  "row_to_json columns r = (\<lambda>k. if k \<in> set columns then Some (get r k) else None)"

definition diff_cols :: "row option \<Rightarrow> row \<Rightarrow> string list \<Rightarrow> string list" where
  "diff_cols existing incoming cols =
     (case existing of
        None \<Rightarrow> cols
      | Some ex \<Rightarrow> filter (\<lambda>c. get ex c \<noteq> get incoming c) cols)"

text \<open>\<open>xs[i : i + n] for i in range(0, len(xs), n)\<close>, for a positive step.\<close>

function chunks :: "nat \<Rightarrow> 'a list \<Rightarrow> 'a list list" where
  "chunks n xs = (if n = 0 \<or> xs = [] then [] else take n xs # chunks n (drop n xs))"
  by pat_completeness auto
termination
  by (relation "measure (\<lambda>(n, xs). length xs)") auto

declare chunks.simps [simp del]

text \<open>
  One \<open>SELECT * FROM table WHERE pk_col IN (...)\<close>: the statement fails when a parameter is
  not a value of the key column's type; otherwise it returns the rows whose key is among
  the parameters, and they are entered into the dictionary under the text of their key.
\<close>

definition select_in :: "tbl \<Rightarrow> val list \<Rightarrow> error + (string \<rightharpoonup> row)" where
  "select_in t chunk =
     (case sql_cast_all (tkey_type t) chunk of
        Inl e \<Rightarrow> Inl e
      | Inr ks \<Rightarrow>
          Inr (\<lambda>k. if k \<in> set (map py_str (filter (\<lambda>v. v \<noteq> VNull) ks)) then trows t k else None))"

fun fetch_chunks :: "tbl \<Rightarrow> val list list \<Rightarrow> (string \<rightharpoonup> row) \<Rightarrow> error + (string \<rightharpoonup> row)" where
  "fetch_chunks t [] out = Inr out"
| "fetch_chunks t (chunk # rest) out =
     (case select_in t chunk of
        Inl e \<Rightarrow> Inl e
      | Inr rows \<Rightarrow> fetch_chunks t rest (out ++ rows))"

definition fetch_existing_bulk :: "db \<Rightarrow> string \<Rightarrow> string \<Rightarrow> val list \<Rightarrow> nat \<Rightarrow> error + (string \<rightharpoonup> row)" where
  "fetch_existing_bulk d tname pkc pk_vals chunk_size =
     (if pk_vals = [] then Inr Map.empty
      else if chunk_size = 0 then Inl ValueError
      else case tables d tname of
             None \<Rightarrow> Inl SqlError
           | Some t \<Rightarrow>
               if pkc \<notin> set (tcols t) then Inl SqlError
               else fetch_chunks t (chunks chunk_size pk_vals) Map.empty)"

definition push_sample :: "string list \<Rightarrow> string \<Rightarrow> nat \<Rightarrow> string list" where
  "push_sample sample_list v limit = (if length sample_list < limit then sample_list @ [v] else sample_list)"

record diff_summary =
  ds_table :: string
  inserted_count :: nat
  updated_count :: nat
  conflicted_count :: nat
  rejected_count :: nat
  hash_backfilled_count :: nat
  inserted_pks_sample :: "string list"
  updated_pks_sample :: "string list"
  conflicted_pks_sample :: "string list"
  updated_by_column_counts :: "(string \<times> nat) list"
  updated_by_column_samples :: "(string \<times> string list) list"

record conflict_entry =
  cf_pk :: string
  cf_conflict_columns :: string
  cf_db_before :: row
  cf_patch_after :: row

record audit_entry =
  au_pk :: string
  au_op :: string
  au_changed_columns :: "string list"
  au_db_before :: "row option"
  au_db_after :: row

text \<open>The keyword arguments of \<open>merge_upsert\<close>; \<open>progress_cb\<close> is at its default, None.\<close>

record merge_args =
  change_event_id :: string
  table :: string
  pk_col :: string
  df :: dataframe
  compare_cols :: "string list"
  protected_cols :: "string list"
  dry_run :: bool
  hash_col :: "string option"
  meta_cols :: "string list option"
  diff_sample_size :: nat
  fetch_chunk_size :: nat
  write_chunk_size :: nat
  backfill_hash :: bool

text \<open>The local variables of the classification loop, and the store.\<close>

record loop_state =
  stats :: MergeStats
  conflicts :: "conflict_entry list"
  summary :: diff_summary
  by_column_counts :: "(string \<times> nat) list"
  by_column_samples :: "(string \<times> string list) list"
  to_write_params :: "row list"
  to_write_audit :: "audit_entry list"
  store :: db

text \<open>A \<open>defaultdict\<close> in insertion order: \<open>d[k] = f(d[k])\<close>, with the default for a new key.\<close>

fun dd_update :: "'v \<Rightarrow> ('v \<Rightarrow> 'v) \<Rightarrow> string \<Rightarrow> (string \<times> 'v) list \<Rightarrow> (string \<times> 'v) list" where
  "dd_update dflt f k [] = [(k, f dflt)]"
| "dd_update dflt f k ((k', v) # kvs) =
     (if k' = k then (k', f v) # kvs else (k', v) # dd_update dflt f k kvs)"

definition truthy :: "string option \<Rightarrow> bool" where
  "truthy s = (case s of None \<Rightarrow> False | Some x \<Rightarrow> x \<noteq> [])"

definition the_meta_cols :: "merge_args \<Rightarrow> string list" where
  "the_meta_cols a = (case meta_cols a of None \<Rightarrow> [''source_row_num''] | Some m \<Rightarrow> if m = [] then [''source_row_num''] else m)"

definition write_cols :: "merge_args \<Rightarrow> string list" where
  "write_cols a = pk_col a # filter (\<lambda>c. c \<noteq> pk_col a) (compare_cols a)"

definition business_cols :: "merge_args \<Rightarrow> string list" where
  "business_cols a =
     filter (\<lambda>c. c \<noteq> pk_col a \<and> Some c \<noteq> hash_col a \<and> c \<notin> set (the_meta_cols a)) (compare_cols a)"

text \<open>
  The backfill \<open>UPDATE table SET hash_col = :h, last_change_event_id = :eid,
  last_updated_at = now() WHERE pk_col = :pk\<close>, inside \<open>try ... except Exception: pass\<close>:
  the statement fails when the table or one of the columns does not exist, a column is
  assigned twice or the key is not a value of the key column's type, and the failure is
  swallowed. The result says whether the statement succeeded. \<open>now\<close> is the reading of the
  store's clock.
\<close>

definition backfill_update :: "val \<Rightarrow> db \<Rightarrow> string \<Rightarrow> string \<Rightarrow> string \<Rightarrow> val \<Rightarrow> string \<Rightarrow> val \<Rightarrow> bool \<times> db" where
  "backfill_update now d tname pkc hc h eid pk_val =
     (case tables d tname of
        None \<Rightarrow> (False, d)
      | Some t \<Rightarrow>
          if set [hc, ''last_change_event_id'', ''last_updated_at'', pkc] \<subseteq> set (tcols t)
             \<and> distinct [hc, ''last_change_event_id'', ''last_updated_at'']
          then
            (case sql_cast (tkey_type t) pk_val of
               Inl e \<Rightarrow> (False, d)
             | Inr k \<Rightarrow>
                 (True,
                  case lookup_key t k of
                    None \<Rightarrow> d
                  | Some r \<Rightarrow>
                      d\<lparr>tables := (tables d)(tname \<mapsto>
                          t\<lparr>trows := (trows t)(py_str k \<mapsto>
                               r(hc \<mapsto> h, ''last_change_event_id'' \<mapsto> VStr eid, ''last_updated_at'' \<mapsto> now))\<rparr>)\<rparr>))
          else (False, d))"

definition hash_of :: "string option \<Rightarrow> row \<Rightarrow> val" where
  "hash_of hc r = (case hc of None \<Rightarrow> VNull | Some h \<Rightarrow> if h = [] then VNull else get r h)"

definition hash_name :: "string option \<Rightarrow> string" where
  "hash_name hc = (case hc of None \<Rightarrow> [] | Some h \<Rightarrow> h)"

definition bump_unchanged :: "loop_state \<Rightarrow> loop_state" where
  "bump_unchanged st = st\<lparr>stats := (stats st)\<lparr>unchanged := unchanged (stats st) + 1\<rparr>\<rparr>"

definition write_params :: "merge_args \<Rightarrow> row \<Rightarrow> row" where
  "write_params a incoming =
     (\<lambda>c. if c \<in> set (write_cols a) then Some (get incoming c) else None)
       (''last_change_event_id'' \<mapsto> VStr (change_event_id a))"

definition inc_hash :: "merge_args \<Rightarrow> row \<Rightarrow> val" where
  "inc_hash a incoming = hash_of (hash_col a) incoming"

definition ex_hash :: "merge_args \<Rightarrow> row option \<Rightarrow> val" where
  "ex_hash a existing = (case existing of None \<Rightarrow> VNull | Some ex \<Rightarrow> hash_of (hash_col a) ex)"

text \<open>\<open>hash_col and existing is not None and inc_h is not None and ex_h is not None and inc_h == ex_h\<close>\<close>

definition hash_short_circuit :: "merge_args \<Rightarrow> row option \<Rightarrow> row \<Rightarrow> bool" where
  "hash_short_circuit a existing incoming =
     (truthy (hash_col a) \<and> existing \<noteq> None \<and> inc_hash a incoming \<noteq> VNull
      \<and> ex_hash a existing \<noteq> VNull \<and> inc_hash a incoming = ex_hash a existing)"

text \<open>The protected columns that differ, for a row that exists (\<open>conflict_cols\<close>).\<close>

definition conflict_cols :: "merge_args \<Rightarrow> row option \<Rightarrow> row \<Rightarrow> string list" where
  "conflict_cols a existing incoming =
     (case existing of
        None \<Rightarrow> []
      | Some ex \<Rightarrow>
          filter (\<lambda>c. c \<in> set (business_cols a) \<and> get ex c \<noteq> get incoming c) (protected_cols a))"

definition count_conflict :: "merge_args \<Rightarrow> string \<Rightarrow> loop_state \<Rightarrow> loop_state" where
  "count_conflict a pk_key st =
     st\<lparr>stats := (stats st)\<lparr>conflicted := conflicted (stats st) + 1\<rparr>,
        summary := (summary st)
          \<lparr>conflicted_count := conflicted (stats st) + 1,
           conflicted_pks_sample :=
             push_sample (conflicted_pks_sample (summary st)) pk_key (diff_sample_size a)\<rparr>\<rparr>"

definition count_insert :: "merge_args \<Rightarrow> string \<Rightarrow> loop_state \<Rightarrow> loop_state" where
  "count_insert a pk_key st =
     st\<lparr>stats := (stats st)\<lparr>inserted := inserted (stats st) + 1\<rparr>,
        summary := (summary st)
          \<lparr>inserted_count := inserted (stats st) + 1,
           inserted_pks_sample :=
             push_sample (inserted_pks_sample (summary st)) pk_key (diff_sample_size a)\<rparr>\<rparr>"

definition count_update :: "merge_args \<Rightarrow> string \<Rightarrow> string list \<Rightarrow> loop_state \<Rightarrow> loop_state" where
  "count_update a pk_key changed_cols st =
     st\<lparr>stats := (stats st)\<lparr>updated := updated (stats st) + 1\<rparr>,
        summary := (summary st)
          \<lparr>updated_count := updated (stats st) + 1,
           updated_pks_sample :=
             push_sample (updated_pks_sample (summary st)) pk_key (diff_sample_size a)\<rparr>,
        by_column_counts :=
          foldl (\<lambda>m col. dd_update 0 (\<lambda>n. n + 1) col m) (by_column_counts st) changed_cols,
        by_column_samples :=
          foldl (\<lambda>m col. dd_update [] (\<lambda>l. push_sample l pk_key (diff_sample_size a)) col m)
            (by_column_samples st) changed_cols\<rparr>"

text \<open>
  The body of \<open>for idx, (_, row) in enumerate(df.iterrows(), start=1)\<close>, branch by branch
  in the order of the source. The result is the exception that leaves the loop, if any,
  and the state reached.
\<close>

definition merge_row :: "val \<Rightarrow> merge_args \<Rightarrow> (string \<rightharpoonup> row) \<Rightarrow> row \<Rightarrow> loop_state \<Rightarrow> error option \<times> loop_state" where
  "merge_row now a existing_map r st =
     (let pk_val = get r (pk_col a);
          pk_key = py_str pk_val;
          incoming = row_to_json (df_columns (df a)) r;
          existing = existing_map pk_key;
          inc_h = inc_hash a incoming;
          ex_h = ex_hash a existing
      in
      if hash_short_circuit a existing incoming
      then (None, bump_unchanged st)
      else
        let changed_cols = diff_cols existing incoming (business_cols a) in
        if existing \<noteq> None \<and> changed_cols = []
        then
          (if backfill_hash a \<and> \<not> dry_run a \<and> truthy (hash_col a) \<and> inc_h \<noteq> VNull
               \<and> (ex_h = VNull \<or> ex_h \<noteq> inc_h)
           then
             (case backfill_update now (store st) (table a) (pk_col a) (hash_name (hash_col a)) inc_h
                     (change_event_id a) pk_val of
                (ok, d') \<Rightarrow>
                  (None,
                   if ok
                   then (bump_unchanged st)\<lparr>store := d',
                          summary := (summary st)\<lparr>hash_backfilled_count := hash_backfilled_count (summary st) + 1\<rparr>\<rparr>
                   else (bump_unchanged st)\<lparr>store := d'\<rparr>))
           else (None, bump_unchanged st))
        else
          if conflict_cols a existing incoming \<noteq> []
          then
            (let st1 = count_conflict a pk_key st;
                 entry = \<lparr>cf_pk = pk_key,
                          cf_conflict_columns = join '', '' (conflict_cols a existing incoming),
                          cf_db_before = (case existing of None \<Rightarrow> Map.empty | Some ex \<Rightarrow> ex),
                          cf_patch_after = incoming\<rparr>
             in
             if \<not> dry_run a
             then
               (case log_row_change (store st)
                       \<lparr>rc_change_event_id = change_event_id a, rc_table_name = table a, rc_pk = pk_key,
                        rc_op = ''UPDATE'', rc_changed_columns = changed_cols, rc_db_before = existing,
                        rc_db_after = incoming, rc_applied = False, rc_conflict = True,
                        rc_conflict_reason =
                          Some (''Protected field mismatch: '' @ join '', '' (conflict_cols a existing incoming))\<rparr> of
                  (Some e, d') \<Rightarrow> (Some e, st1\<lparr>store := d'\<rparr>)
                | (None, d') \<Rightarrow> (None, st1\<lparr>store := d', conflicts := conflicts st @ [entry]\<rparr>))
             else (None, st1\<lparr>conflicts := conflicts st @ [entry]\<rparr>))
          else
            (let st1 = (if existing = None then count_insert a pk_key st
                        else count_update a pk_key changed_cols st);
                 op = (if existing = None then ''INSERT'' else ''UPDATE'')
             in
             if dry_run a then (None, st1)
             else (None,
                   st1\<lparr>to_write_params := to_write_params st1 @ [write_params a incoming],
                       to_write_audit := to_write_audit st1 @
                         [\<lparr>au_pk = pk_key, au_op = op, au_changed_columns = changed_cols,
                           au_db_before = existing, au_db_after = incoming\<rparr>]\<rparr>)))"

fun merge_loop :: "val \<Rightarrow> merge_args \<Rightarrow> (string \<rightharpoonup> row) \<Rightarrow> row list \<Rightarrow> loop_state \<Rightarrow> error option \<times> loop_state" where
  "merge_loop now a existing_map [] st = (None, st)"
| "merge_loop now a existing_map (r # rs) st =
     (case merge_row now a existing_map r st of
        (Some e, st') \<Rightarrow> (Some e, st')
      | (None, st') \<Rightarrow> merge_loop now a existing_map rs st')"

text \<open>
  One row of the batch \<open>INSERT ... ON CONFLICT (pk_col) DO UPDATE SET ...\<close>: the key is
  taken in the key column's type; a new row gets the written columns, an existing row keeps
  its key and its other columns. The statement fails when the key is not a value of the
  column's type, or is NULL.
\<close>

definition upsert_one :: "val \<Rightarrow> coltype \<Rightarrow> string \<Rightarrow> string list \<Rightarrow> (string \<rightharpoonup> row) \<Rightarrow> row \<Rightarrow> error + (string \<rightharpoonup> row)" where
  "upsert_one now ty pkc cols rows p =
     (case sql_cast ty (get p pkc) of
        Inl e \<Rightarrow> Inl e
      | Inr k \<Rightarrow>
          if k = VNull then Inl SqlError
          else
            (case rows (py_str k) of
               None \<Rightarrow>
                 Inr (rows(py_str k \<mapsto>
                        (\<lambda>c. if c \<in> set cols then Some (if c = pkc then k else get p c) else None)
                          (''last_change_event_id'' \<mapsto> get p ''last_change_event_id'',
                           ''last_updated_at'' \<mapsto> now)))
             | Some old \<Rightarrow>
                 Inr (rows(py_str k \<mapsto>
                        (\<lambda>c. if c \<in> set cols \<and> c \<noteq> pkc then Some (get p c) else old c)
                          (''last_change_event_id'' \<mapsto> get p ''last_change_event_id'',
                           ''last_updated_at'' \<mapsto> now)))))"

fun upsert_all :: "val \<Rightarrow> coltype \<Rightarrow> string \<Rightarrow> string list \<Rightarrow> (string \<rightharpoonup> row) \<Rightarrow> row list \<Rightarrow> error + (string \<rightharpoonup> row)" where
  "upsert_all now ty pkc cols rows [] = Inr rows"
| "upsert_all now ty pkc cols rows (p # ps) =
     (case upsert_one now ty pkc cols rows p of
        Inl e \<Rightarrow> Inl e
      | Inr rows' \<Rightarrow> upsert_all now ty pkc cols rows' ps)"

text \<open>
  The batch write, in one transaction: \<open>range(0, len, write_chunk_size)\<close> raises for a zero
  step; a statement fails when the table or a written column does not exist, a column is
  named twice or a key is not a value of the key column's type; then nothing is written.
\<close>

definition batch_upsert :: "val \<Rightarrow> merge_args \<Rightarrow> row list \<Rightarrow> db \<Rightarrow> error option \<times> db" where
  "batch_upsert now a params d =
     (if write_chunk_size a = 0 then (Some ValueError, d)
      else case tables d (table a) of
             None \<Rightarrow> (Some SqlError, d)
           | Some t \<Rightarrow>
               let cols = write_cols a @ [''last_change_event_id'', ''last_updated_at''] in
               if set cols \<subseteq> set (tcols t) \<and> distinct cols
               then
                 (case upsert_all now (tkey_type t) (pk_col a) (write_cols a) (trows t)
                         (concat (chunks (write_chunk_size a) params)) of
                    Inl e \<Rightarrow> (Some e, d)
                  | Inr rows' \<Rightarrow> (None, d\<lparr>tables := (tables d)(table a \<mapsto> t\<lparr>trows := rows'\<rparr>)\<rparr>))
               else (Some SqlError, d))"

fun log_applied :: "merge_args \<Rightarrow> audit_entry list \<Rightarrow> db \<Rightarrow> error option \<times> db" where
  "log_applied a [] d = (None, d)"
| "log_applied a (e # es) d =
     (case log_row_change d
             \<lparr>rc_change_event_id = change_event_id a, rc_table_name = table a, rc_pk = au_pk e,
              rc_op = au_op e, rc_changed_columns = au_changed_columns e, rc_db_before = au_db_before e,
              rc_db_after = au_db_after e, rc_applied = True, rc_conflict = False,
              rc_conflict_reason = None\<rparr> of
        (Some err, d') \<Rightarrow> (Some err, d')
      | (None, d') \<Rightarrow> log_applied a es d')"

text \<open>Rows with a missing or blank primary key.\<close>

definition bad_pk :: "val \<Rightarrow> bool" where
  "bad_pk v = (v = VNull \<or> strip (py_str v) = [])"

definition init_summary :: "string \<Rightarrow> diff_summary" where
  "init_summary t =
     \<lparr>ds_table = t, inserted_count = 0, updated_count = 0, conflicted_count = 0, rejected_count = 0,
      hash_backfilled_count = 0, inserted_pks_sample = [], updated_pks_sample = [],
      conflicted_pks_sample = [], updated_by_column_counts = [], updated_by_column_samples = []\<rparr>"

definition init_state :: "merge_args \<Rightarrow> nat \<Rightarrow> db \<Rightarrow> loop_state" where
  "init_state a rej d =
     \<lparr>stats = \<lparr>inserted = 0, updated = 0, unchanged = 0, conflicted = 0, rejected = rej\<rparr>,
      conflicts = [],
      summary = (init_summary (table a))\<lparr>rejected_count := rej\<rparr>,
      by_column_counts = [], by_column_samples = [],
      to_write_params = [], to_write_audit = [],
      store = d\<rparr>"

definition finish_summary :: "loop_state \<Rightarrow> diff_summary" where
  "finish_summary st =
     (summary st)
       \<lparr>updated_by_column_counts := sort_key (\<lambda>kv. (- int (snd kv), fst kv)) (by_column_counts st),
        updated_by_column_samples := by_column_samples st\<rparr>"

type_synonym merge_result = "MergeStats \<times> conflict_entry list \<times> diff_summary"

definition merge_upsert :: "val \<Rightarrow> merge_args \<Rightarrow> db \<Rightarrow> (error + merge_result) \<times> db" where
  "merge_upsert now a d =
     (if pk_col a \<notin> set (df_columns (df a)) then (Inl (KeyError (pk_col a)), d)
      else
        let rej = length (filter (\<lambda>r. bad_pk (get r (pk_col a))) (df_rows (df a)));
            rows = filter (\<lambda>r. \<not> bad_pk (get r (pk_col a))) (df_rows (df a));
            st0 = init_state a rej d
        in
        if rows = [] then (Inr (stats st0, conflicts st0, summary st0), d)
        else
          case fetch_existing_bulk d (table a) (pk_col a) (map (\<lambda>r. get r (pk_col a)) rows) (fetch_chunk_size a) of
            Inl e \<Rightarrow> (Inl e, d)
          | Inr existing_map \<Rightarrow>
              (case merge_loop now a existing_map rows st0 of
                 (Some e, st) \<Rightarrow> (Inl e, store st)
               | (None, st) \<Rightarrow>
                   if \<not> dry_run a \<and> to_write_params st \<noteq> []
                   then
                     (case batch_upsert now a (to_write_params st) (store st) of
                        (Some e, d1) \<Rightarrow> (Inl e, d1)
                      | (None, d1) \<Rightarrow>
                          (case log_applied a (to_write_audit st) d1 of
                             (Some e, d2) \<Rightarrow> (Inl e, d2)
                           | (None, d2) \<Rightarrow> (Inr (stats st, conflicts st, finish_summary st), d2)))
                   else (Inr (stats st, conflicts st, finish_summary st), store st)))"

definition stats_total :: "MergeStats \<Rightarrow> nat" where
  "stats_total s = inserted s + updated s + unchanged s + conflicted s + rejected s"

section \<open>The classification, in terms of the stored table\<close>

text \<open>
  The stored row whose key equals a given value, as the store compares them
  (\<open>SELECT * FROM table WHERE pk_col = :v\<close>).
\<close>

definition matching_row :: "tbl \<Rightarrow> val \<Rightarrow> row option" where
  "matching_row t v = (case sql_cast (tkey_type t) v of Inl e \<Rightarrow> None | Inr k \<Rightarrow> lookup_key t k)"

text \<open>
  A key is given in the form of the key column when the store takes it and its text
  \<open>str(pk_val)\<close> is the text of the key as the column holds it: an integer for an integer
  column, or its plain decimal text; a string for a text column.
\<close>

definition key_in_column_form :: "tbl \<Rightarrow> val \<Rightarrow> bool" where
  "key_in_column_form t v =
     (case sql_cast (tkey_type t) v of Inl e \<Rightarrow> False | Inr k \<Rightarrow> py_str k = py_str v)"

text \<open>
  The conditions of the specification, on the cells of a stored and an incoming row. Both
  fingerprints are present and equal:
\<close>

definition fingerprints_equal :: "merge_args \<Rightarrow> row \<Rightarrow> row \<Rightarrow> bool" where
  "fingerprints_equal a ex incoming =
     (case hash_col a of
        None \<Rightarrow> False
      | Some h \<Rightarrow> h \<noteq> [] \<and> get ex h \<noteq> VNull \<and> get incoming h \<noteq> VNull \<and> get ex h = get incoming h)"

text \<open>A business column: compared, and not the key, the fingerprint or a metadata column.\<close>

definition business_col :: "merge_args \<Rightarrow> string \<Rightarrow> bool" where
  "business_col a c =
     (c \<in> set (compare_cols a) \<and> c \<noteq> pk_col a \<and> Some c \<noteq> hash_col a \<and> c \<notin> set (the_meta_cols a))"

text \<open>Some business column differs; some protected business column differs.\<close>

definition business_differs :: "merge_args \<Rightarrow> row \<Rightarrow> row \<Rightarrow> bool" where
  "business_differs a ex incoming =
     (\<exists>c \<in> set (compare_cols a). business_col a c \<and> get ex c \<noteq> get incoming c)"

definition protected_differs :: "merge_args \<Rightarrow> row \<Rightarrow> row \<Rightarrow> bool" where
  "protected_differs a ex incoming =
     (\<exists>c \<in> set (protected_cols a). business_col a c \<and> get ex c \<noteq> get incoming c)"

text \<open>
  UNCHANGED, in the words of the specification: the row exists, and the fingerprints are
  present and equal or no business column differs. CONFLICT: the row exists, the
  fingerprints are not both present and equal, and a protected business column differs.
\<close>

definition spec_unchanged :: "merge_args \<Rightarrow> row option \<Rightarrow> row \<Rightarrow> bool" where
  "spec_unchanged a existing incoming =
     (case existing of
        None \<Rightarrow> False
      | Some ex \<Rightarrow> fingerprints_equal a ex incoming \<or> \<not> business_differs a ex incoming)"

definition spec_conflict :: "merge_args \<Rightarrow> row option \<Rightarrow> row \<Rightarrow> bool" where
  "spec_conflict a existing incoming =
     (case existing of
        None \<Rightarrow> False
      | Some ex \<Rightarrow> \<not> fingerprints_equal a ex incoming \<and> protected_differs a ex incoming)"

text \<open>The rows of the dataframe that are not rejected, and what a row is compared with.\<close>

definition kept_rows :: "merge_args \<Rightarrow> row list" where
  "kept_rows a = filter (\<lambda>r. \<not> bad_pk (get r (pk_col a))) (df_rows (df a))"

definition incoming_of :: "merge_args \<Rightarrow> row \<Rightarrow> row" where
  "incoming_of a r = row_to_json (df_columns (df a)) r"

definition stored_of :: "merge_args \<Rightarrow> tbl \<Rightarrow> row \<Rightarrow> row option" where
  "stored_of a t r = matching_row t (get r (pk_col a))"

section \<open>Example inputs\<close>

text \<open>
  A cut of the pipeline's sales staging table (\<open>stg_sales_orders\<close>, key \<open>order_id\<close>,
  \<open>order_date\<close> protected, \<open>source_row_num\<close> metadata), holding one order.
\<close>

definition sales_cols :: "string list" where
  "sales_cols = [''order_id'', ''source_row_num'', ''order_date'', ''revenue'', ''row_hash'']"

definition stored_order :: row where
  "stored_order =
     [''order_id'' \<mapsto> VInt 1, ''source_row_num'' \<mapsto> VInt 1, ''order_date'' \<mapsto> VStr ''2024-01-05'',
      ''revenue'' \<mapsto> VInt 100, ''row_hash'' \<mapsto> VStr ''aa'']"

definition sales_table :: tbl where
  "sales_table =
     \<lparr>tcols = sales_cols @ [''last_change_event_id'', ''last_updated_at''],
      tkey_type = TInteger,
      trows = [''1'' \<mapsto> stored_order]\<rparr>"

definition sales_db :: db where
  "sales_db =
     \<lparr>tables = [''stg_sales_orders'' \<mapsto> sales_table],
      etl_change_events = Some [], etl_row_changes = Some [], etl_state_images = Some [],
      etl_state_pointer = Some None, etl_state_head = None,
      uuid_source = (\<lambda>n. ''rb-'' @ str_nat n), uuid_count = 0\<rparr>"

definition sales_args :: "row list \<Rightarrow> merge_args" where
  "sales_args rows =
     \<lparr>change_event_id = ''e1'', table = ''stg_sales_orders'', pk_col = ''order_id'',
      df = \<lparr>df_columns = sales_cols, df_rows = rows\<rparr>,
      compare_cols = sales_cols, protected_cols = [''order_date''], dry_run = False,
      hash_col = Some ''row_hash'', meta_cols = Some [''source_row_num''],
      diff_sample_size = 25, fetch_chunk_size = 2000, write_chunk_size = 2000, backfill_hash = True\<rparr>"

definition order_row :: "val \<Rightarrow> int \<Rightarrow> string \<Rightarrow> int \<Rightarrow> string \<Rightarrow> row" where
  "order_row k n date amount h =
     [''order_id'' \<mapsto> k, ''source_row_num'' \<mapsto> VInt n, ''order_date'' \<mapsto> VStr date,
      ''revenue'' \<mapsto> VInt amount, ''row_hash'' \<mapsto> VStr h]"

definition three_rows :: "row list" where
  "three_rows =
     [order_row VNull 1 ''2024-03-01'' 10 ''n1'',
      order_row (VInt 1) 1 ''2024-01-05'' 100 ''aa'',
      order_row (VInt 2) 3 ''2024-03-02'' 20 ''n2'']"

(*DEFS-END*)

section \<open>Properties of the merge\<close>

lemmas count_defs = bump_unchanged_def count_conflict_def count_insert_def count_update_def

lemma merge_row_total:
  "merge_row now a em r st = (None, st') \<Longrightarrow> stats_total (stats st') = stats_total (stats st) + 1"
  by (auto simp: merge_row_def Let_def stats_total_def count_defs split: if_splits prod.splits option.splits)

lemma merge_loop_total:
  "merge_loop now a em rows st = (None, st') \<Longrightarrow> stats_total (stats st') = stats_total (stats st) + length rows"
proof (induction rows arbitrary: st)
  case Nil
  then show ?case by simp
next
  case (Cons r rs)
  then show ?case
    by (auto split: prod.splits option.splits dest!: merge_row_total)
qed

lemma merge_row_dry:
  "dry_run a \<Longrightarrow> merge_row now a em r st = (e, st') \<Longrightarrow>
     e = None \<and> store st' = store st \<and> to_write_params st' = to_write_params st \<and> to_write_audit st' = to_write_audit st"
  by (auto simp: merge_row_def Let_def count_defs split: if_splits prod.splits option.splits)

lemma merge_loop_dry:
  "dry_run a \<Longrightarrow> merge_loop now a em rows st = (e, st') \<Longrightarrow>
     e = None \<and> store st' = store st \<and> to_write_params st' = to_write_params st \<and> to_write_audit st' = to_write_audit st"
proof (induction rows arbitrary: st)
  case Nil
  then show ?case by simp
next
  case (Cons r rs)
  obtain e1 st1 where r1: "merge_row now a em r st = (e1, st1)" by (cases "merge_row now a em r st")
  from merge_row_dry[OF Cons.prems(1) r1] have e1: "e1 = None" and eq: "store st1 = store st" "to_write_params st1 = to_write_params st" "to_write_audit st1 = to_write_audit st" by auto
  from Cons.prems(2) r1 e1 have "merge_loop now a em rs st1 = (e, st')" by simp
  from Cons.IH[OF Cons.prems(1) this] eq show ?case by simp
qed

lemma business_cols_set:
  "set (business_cols a) = {c \<in> set (compare_cols a). c \<noteq> pk_col a \<and> Some c \<noteq> hash_col a \<and> c \<notin> set (the_meta_cols a)}"
  by (auto simp: business_cols_def)

subsection \<open>Evaluation on concrete inputs\<close>

lemma str_nat_digit: "n < 10 \<Longrightarrow> str_nat n = [digit_char n]"
  by (simp add: str_nat.simps)

lemma chunks_single: "0 < n \<Longrightarrow> xs \<noteq> [] \<Longrightarrow> length xs \<le> n \<Longrightarrow> chunks n xs = [xs]"
  by (subst chunks.simps, subst chunks.simps) simp

lemmas eval_defs = merge_upsert_def Let_def init_state_def init_summary_def fetch_existing_bulk_def select_in_def
  lookup_key_def upsert_all.simps sql_cast.simps
  merge_row_def bad_pk_def strip_def is_space_def get_def row_to_json_def str_int_def str_nat_digit digit_char_def
  chunks_single hash_short_circuit_def inc_hash_def ex_hash_def hash_of_def truthy_def diff_cols_def business_cols_def
  the_meta_cols_def conflict_cols_def count_insert_def count_update_def count_conflict_def bump_unchanged_def
  push_sample_def write_params_def write_cols_def batch_upsert_def upsert_one_def log_row_change_def finish_summary_def
  backfill_update_def hash_name_def

lemmas example_defs = sales_cols_def stored_order_def sales_table_def sales_db_def sales_args_def order_row_def

subsection \<open>The claims about the merge\<close>

text \<open>
  C10 (partition of the rows). When \<open>merge_upsert\<close> returns, the five counts add up to the
  number of rows of the dataframe.
\<close>

theorem partition_invariant:
  assumes "merge_upsert now a d = (Inr (s, c, ds), d')"
  shows "inserted s + updated s + unchanged s + conflicted s + rejected s = length (df_rows (df a))"
proof -
  let ?bad = "\<lambda>r. bad_pk (get r (pk_col a))"
  let ?rows = "filter (\<lambda>r. \<not> ?bad r) (df_rows (df a))"
  let ?rej = "length (filter ?bad (df_rows (df a)))"
  have len: "?rej + length ?rows = length (df_rows (df a))"
    by (rule sum_length_filter_compl)
  have t0: "stats_total (stats (init_state a ?rej d)) = ?rej"
    by (simp add: init_state_def stats_total_def)
  show ?thesis
  proof (cases "?rows = []")
    case True
    with assms have "s = stats (init_state a ?rej d)"
      by (auto simp: merge_upsert_def Let_def split: if_splits)
    with t0 len True show ?thesis by (simp add: stats_total_def)
  next
    case False
    with assms obtain em st where
      loop: "merge_loop now a em ?rows (init_state a ?rej d) = (None, st)" and s: "s = stats st"
      by (auto simp: merge_upsert_def Let_def split: if_splits sum.splits prod.splits option.splits)
    from merge_loop_total[OF loop] t0 len s show ?thesis by (simp add: stats_total_def)
  qed
qed

text \<open>
  C10, on three rows: one without a key, the stored order again, and a new order.
\<close>

theorem partition_invariant_witness:
  "fst (merge_upsert (VInt 0) (sales_args three_rows) sales_db) =
     Inr (\<lparr>inserted = 1, updated = 0, unchanged = 1, conflicted = 0, rejected = 1\<rparr>, [],
          \<lparr>ds_table = ''stg_sales_orders'', inserted_count = 1, updated_count = 0, conflicted_count = 0,
           rejected_count = 1, hash_backfilled_count = 0, inserted_pks_sample = [''2''],
           updated_pks_sample = [], conflicted_pks_sample = [], updated_by_column_counts = [],
           updated_by_column_samples = []\<rparr>)
   \<and> length (df_rows (df (sales_args three_rows))) = 3"
proof -
  let ?R = "merge_upsert (VInt 0) (sales_args three_rows) sales_db"
  have e: "fst ?R =
     Inr (\<lparr>inserted = 1, updated = 0, unchanged = 1, conflicted = 0, rejected = 1\<rparr>, [],
          \<lparr>ds_table = ''stg_sales_orders'', inserted_count = 1, updated_count = 0, conflicted_count = 0,
           rejected_count = 1, hash_backfilled_count = 0, inserted_pks_sample = [''2''],
           updated_pks_sample = [], conflicted_pks_sample = [], updated_by_column_counts = [],
           updated_by_column_samples = []\<rparr>)"
    by (simp add: three_rows_def example_defs eval_defs)
  then have "?R = (Inr (\<lparr>inserted = 1, updated = 0, unchanged = 1, conflicted = 0, rejected = 1\<rparr>, [],
          \<lparr>ds_table = ''stg_sales_orders'', inserted_count = 1, updated_count = 0, conflicted_count = 0,
           rejected_count = 1, hash_backfilled_count = 0, inserted_pks_sample = [''2''],
           updated_pks_sample = [], conflicted_pks_sample = [], updated_by_column_counts = [],
           updated_by_column_samples = []\<rparr>), snd ?R)"
    by (simp add: prod_eq_iff)
  from partition_invariant[OF this] e show ?thesis by simp
qed

text \<open>
  C5 (dry run). With \<open>dry_run\<close> set, \<open>merge_upsert\<close> leaves the whole store as it was: the
  target table, the ledger and everything else.
\<close>

theorem dry_run_purity:
  "snd (merge_upsert now (a\<lparr>dry_run := True\<rparr>) d) = d"
proof -
  let ?a = "a\<lparr>dry_run := True\<rparr>"
  have dry: "dry_run ?a" by simp
  have "\<And>em rows rej e st. merge_loop now ?a em rows (init_state ?a rej d) = (e, st) \<Longrightarrow> e = None \<and> store st = d"
    using merge_loop_dry[OF dry] by (fastforce simp: init_state_def)
  then show ?thesis
    by (auto simp: merge_upsert_def Let_def init_state_def split: if_splits sum.splits prod.splits option.splits)
qed

text \<open>
  C5, on the three rows: the store is untouched and the rows are still classified.
\<close>

theorem dry_run_purity_witness:
  "snd (merge_upsert (VInt 0) ((sales_args three_rows)\<lparr>dry_run := True\<rparr>) sales_db) = sales_db
   \<and> map_sum id fst (fst (merge_upsert (VInt 0) ((sales_args three_rows)\<lparr>dry_run := True\<rparr>) sales_db))
       = Inr \<lparr>inserted = 1, updated = 0, unchanged = 1, conflicted = 0, rejected = 1\<rparr>"
proof -
  have "map_sum id fst (fst (merge_upsert (VInt 0) ((sales_args three_rows)\<lparr>dry_run := True\<rparr>) sales_db))
       = Inr \<lparr>inserted = 1, updated = 0, unchanged = 1, conflicted = 0, rejected = 1\<rparr>"
    by (simp add: three_rows_def example_defs eval_defs)
  with dry_run_purity[of "VInt 0" "sales_args three_rows" sales_db] show ?thesis by simp
qed

end
